theory Spec2Isabelle
  imports Main "HOL-Library.Sublist"
begin

section \<open>The project initializer (main.go)\<close>

text \<open>
  The program is one \<open>main\<close> function and a helper \<open>getGitUsername\<close>. Everything it
  does goes through library calls: the \<open>flag\<close> package, \<open>os\<close>, \<open>path/filepath\<close>,
  \<open>os/exec\<close> and go-git. The libraries are not part of the repository, so they are
  parameters of the model (a \<open>platform\<close>); the control flow, the messages and the
  arguments of every call are those of main.go.
\<close>

subsection \<open>Values\<close>

text \<open>A Go \<open>error\<close> is represented by the text its \<open>Error()\<close> method returns.\<close>

type_synonym err = string

text \<open>The line feed and the tab of the Go string literals, and the double quote.\<close>

abbreviation nl :: string where
  "nl \<equiv> [CHR 0x0A]"

abbreviation tab :: string where
  "tab \<equiv> [CHR 0x09]"

abbreviation dq :: string where
  "dq \<equiv> [CHR 0x22]"

text \<open>\<open>config.Config\<close> of go-git, reduced to the one field main.go reads: \<open>cfg.User.Name\<close>.\<close>

datatype config = Config (User_Name: string)

subsection \<open>The command line after \<open>flag.Parse\<close>\<close>

text \<open>
  Lines 16 to 19 define four flags, line 33 parses the command line. What main.go sees
  afterwards is, for each flag, either the value given on the command line or the
  default, and the remaining positional arguments (\<open>flag.Args()\<close>). A flag that was
  not given is \<open>None\<close>; \<open>-gopath ""\<close> is \<open>Some ''''\<close>; a plain \<open>-h\<close> is \<open>Some True\<close> and
  \<open>-h=false\<close> is \<open>Some False\<close>. A malformed command line never reaches line 36:
  \<open>flag.Parse\<close> ends the process itself.
\<close>

record cmdline =
  flag_provider :: "string option"
  flag_gopath :: "string option"
  flag_username :: "string option"
  flag_h :: "bool option"
  positional :: "string list"

text \<open>\<open>*flag.String(name, default, usage)\<close> and \<open>*flag.Bool(name, default, usage)\<close>
  after parsing.\<close>

definition flag_String :: "string option \<Rightarrow> string \<Rightarrow> string" where
  "flag_String given dflt = (case given of Some v \<Rightarrow> v | None \<Rightarrow> dflt)"

definition flag_Bool :: "bool option \<Rightarrow> bool \<Rightarrow> bool" where
  "flag_Bool given dflt = (case given of Some v \<Rightarrow> v | None \<Rightarrow> dflt)"

subsection \<open>The platform\<close>

text \<open>
  The calls main.go makes on the outside world. Permissions are the octal literals of
  the source as numbers: \<open>0755 = 493\<close>, \<open>0644 = 420\<close>.
\<close>

datatype call =
    CallLoadConfig
  | CallMkdirAll string nat
  | CallChdir string
  | CallPlainInit string bool
  | CallCombinedOutput "string list"
  | CallWriteFile string string nat

text \<open>
  The outside world has type \<open>'w\<close> (file system, installed tools, and so on). Each
  library call is a function of the world: it returns the Go result and the world it
  leaves behind, and may fail or succeed on any world. \<open>Args0\<close> is \<open>os.Args[0]\<close>,
  \<open>Getenv_GOPATH\<close> is \<open>os.Getenv("GOPATH")\<close> (empty when the variable is unset),
  \<open>PrintDefaults\<close> is the text \<open>flag.PrintDefaults()\<close> writes, \<open>Join\<close> is
  \<open>filepath.Join\<close>, \<open>sys_LoadConfig\<close> is \<open>config.LoadConfig(config.GlobalScope)\<close>, and
  \<open>sys_CombinedOutput args\<close> is \<open>exec.Command(args...).CombinedOutput()\<close>. What a path
  denotes is the platform's matter too: a relative path is resolved by the operating
  system against the working directory at the time of the call.
\<close>

record 'w platform =
  Args0 :: string
  Getenv_GOPATH :: string
  PrintDefaults :: string
  Join :: "string list \<Rightarrow> string"
  sys_LoadConfig :: "'w \<Rightarrow> err + config"
  sys_MkdirAll :: "string \<Rightarrow> nat \<Rightarrow> 'w \<Rightarrow> err option \<times> 'w"
  sys_Chdir :: "string \<Rightarrow> 'w \<Rightarrow> err option \<times> 'w"
  sys_PlainInit :: "string \<Rightarrow> bool \<Rightarrow> 'w \<Rightarrow> err option \<times> 'w"
  sys_CombinedOutput :: "string list \<Rightarrow> 'w \<Rightarrow> (string \<times> err option) \<times> 'w"
  sys_WriteFile :: "string \<Rightarrow> string \<Rightarrow> nat \<Rightarrow> 'w \<Rightarrow> err option \<times> 'w"

subsection \<open>The process\<close>

text \<open>
  The state of the running process: the outside world, what has been written to
  standard output and standard error, and the calls made so far, each with the error
  it returned (\<open>None\<close> for \<open>nil\<close>).
\<close>

record 'w proc =
  world :: 'w
  stdout :: string
  stderr :: string
  trace :: "(call \<times> err option) list"

definition start :: "'w \<Rightarrow> 'w proc" where
  "start w = \<lparr>world = w, stdout = [], stderr = [], trace = []\<rparr>"

definition Print :: "string \<Rightarrow> 'w proc \<Rightarrow> 'w proc" where
  "Print text s = s\<lparr>stdout := stdout s @ text\<rparr>"

definition Println :: "string \<Rightarrow> 'w proc \<Rightarrow> 'w proc" where
  "Println text s = Print (text @ nl) s"

definition called :: "call \<Rightarrow> err option \<Rightarrow> 'w \<Rightarrow> 'w proc \<Rightarrow> 'w proc" where
  "called c e w s = s\<lparr>world := w, trace := trace s @ [(c, e)]\<rparr>"

text \<open>The library calls as the process makes them: perform, and record.\<close>

definition config_LoadConfig :: "'w platform \<Rightarrow> 'w proc \<Rightarrow> (err + config) \<times> 'w proc" where
  "config_LoadConfig P s =
     (case sys_LoadConfig P (world s) of
        Inl e \<Rightarrow> (Inl e, called CallLoadConfig (Some e) (world s) s)
      | Inr cfg \<Rightarrow> (Inr cfg, called CallLoadConfig None (world s) s))"

definition os_MkdirAll :: "'w platform \<Rightarrow> string \<Rightarrow> nat \<Rightarrow> 'w proc \<Rightarrow> err option \<times> 'w proc" where
  "os_MkdirAll P path perm s =
     (let (e, w) = sys_MkdirAll P path perm (world s)
      in (e, called (CallMkdirAll path perm) e w s))"

definition os_Chdir :: "'w platform \<Rightarrow> string \<Rightarrow> 'w proc \<Rightarrow> err option \<times> 'w proc" where
  "os_Chdir P path s =
     (let (e, w) = sys_Chdir P path (world s)
      in (e, called (CallChdir path) e w s))"

definition git_PlainInit :: "'w platform \<Rightarrow> string \<Rightarrow> bool \<Rightarrow> 'w proc \<Rightarrow> err option \<times> 'w proc" where
  "git_PlainInit P path isBare s =
     (let (e, w) = sys_PlainInit P path isBare (world s)
      in (e, called (CallPlainInit path isBare) e w s))"

definition cmd_CombinedOutput ::
  "'w platform \<Rightarrow> string list \<Rightarrow> 'w proc \<Rightarrow> (string \<times> err option) \<times> 'w proc" where
  "cmd_CombinedOutput P args s =
     (let ((out, e), w) = sys_CombinedOutput P args (world s)
      in ((out, e), called (CallCombinedOutput args) e w s))"

definition os_WriteFile ::
  "'w platform \<Rightarrow> string \<Rightarrow> string \<Rightarrow> nat \<Rightarrow> 'w proc \<Rightarrow> err option \<times> 'w proc" where
  "os_WriteFile P name data perm s =
     (let (e, w) = sys_WriteFile P name data perm (world s)
      in (e, called (CallWriteFile name data perm) e w s))"

subsection \<open>main.go\<close>

text \<open>\<open>flag.Usage\<close>, lines 22 to 31: written to standard error.\<close>

definition usage_text :: "'w platform \<Rightarrow> string" where
  "usage_text P =
     ''Go Project Initializer'' @ nl @ nl
   @ ''This program creates a new Go project directory structure, initializes a Git repository, sets up a Go module, and generates a basic main.go file.'' @ nl
   @ ''It uses GOPATH and git global config, with options to override defaults.'' @ nl @ nl
   @ ''Usage: '' @ Args0 P @ '' [options] <project-name>'' @ nl @ nl
   @ ''Arguments:'' @ nl
   @ ''  project-name    Name of the project to create (required)'' @ nl @ nl
   @ ''Options:'' @ nl
   @ PrintDefaults P"

definition Usage :: "'w platform \<Rightarrow> 'w proc \<Rightarrow> 'w proc" where
  "Usage P s = s\<lparr>stderr := stderr s @ usage_text P\<rparr>"

text \<open>\<open>getGitUsername\<close>, lines 119 to 131.\<close>

definition getGitUsername :: "'w platform \<Rightarrow> 'w proc \<Rightarrow> (err + string) \<times> 'w proc" where
  "getGitUsername P s =
     (let (r, s) = config_LoadConfig P s
      in case r of
           Inl e \<Rightarrow> (Inl (''failed to load git config: '' @ e), s)
         | Inr cfg \<Rightarrow>
             (let name = User_Name cfg
              in if name = '''' then (Inl ''git user.name is not set in global config'', s)
                 else (Inr name, s)))"

text \<open>The template of lines 100 to 107, with \<open>%s\<close> replaced by the project name.\<close>

definition mainContent :: "string \<Rightarrow> string" where
  "mainContent projectName =
     ''package main'' @ nl @ nl
   @ ''import '' @ dq @ ''fmt'' @ dq @ nl @ nl
   @ ''func main() {'' @ nl
   @ tab @ ''fmt.Println('' @ dq @ ''Hello from '' @ projectName @ ''!'' @ dq @ '')'' @ nl
   @ ''}'' @ nl"

text \<open>
  \<open>main\<close>, lines 14 to 117. The result is the exit status (\<open>os.Exit(n)\<close>, or 0 when
  \<open>main\<close> returns) and the final state of the process.
\<close>

definition main :: "'w platform \<Rightarrow> cmdline \<Rightarrow> 'w \<Rightarrow> nat \<times> 'w proc" where
  "main P c w =
     (let s = start w;
          provider = flag_String (flag_provider c) ''github.com'';
          gopath = flag_String (flag_gopath c) (Getenv_GOPATH P);
          username = flag_String (flag_username c) '''';
          help = flag_Bool (flag_h c) False
      in
      if help then (0, Usage P s)
      else
     (let args = positional c in
      if length args \<noteq> 1 then
        (1, Usage P (Println ''Error: Project name is required as an argument.'' s))
      else
     (let projectName = args ! 0 in
      if gopath = '''' then
        (1, Println ''Error: GOPATH is not set. Please set GOPATH environment variable or provide it using the -gopath flag.'' s)
      else
     (let (r, s) = (if username = '''' then getGitUsername P s else (Inr username, s)) in
      case r of
        Inl e \<Rightarrow> (1, Print (''Error getting git username: '' @ e @ nl) s)
      | Inr username \<Rightarrow>
     (let projectPath = Join P [gopath, ''src'', provider, username, projectName];
          (err, s) = os_MkdirAll P projectPath 493 s in
      case err of
        Some e \<Rightarrow> (1, Print (''Error creating project directory: '' @ e @ nl) s)
      | None \<Rightarrow>
     (let (err, s) = os_Chdir P projectPath s in
      case err of
        Some e \<Rightarrow> (1, Print (''Error changing to project directory: '' @ e @ nl) s)
      | None \<Rightarrow>
     (let (err, s) = git_PlainInit P projectPath False s in
      case err of
        Some e \<Rightarrow> (1, Print (''Error initializing Git repository: '' @ e @ nl) s)
      | None \<Rightarrow>
     (let ((output, err), s) = cmd_CombinedOutput P [''go'', ''mod'', ''init''] s in
      case err of
        Some e \<Rightarrow> (1, Print (''Error initializing Go module: '' @ e @ nl @ output @ nl) s)
      | None \<Rightarrow>
     (let (err, s) = os_WriteFile P ''main.go'' (mainContent projectName) 420 s in
      case err of
        Some e \<Rightarrow> (1, Print (''Error creating main.go file: '' @ e @ nl) s)
      | None \<Rightarrow>
        (0, Println ''Created: Git repository, Go module, and main.go file''
              (Print (''Successfully created and set up Go project at '' @ projectPath @ nl) s)))))))))))"

section \<open>Notions used by the properties\<close>

text \<open>
  The calls that change the outside world, in the order main.go makes them, for a
  project path and a project name.
\<close>

definition steps :: "string \<Rightarrow> string \<Rightarrow> call list" where
  "steps projectPath projectName =
     [CallMkdirAll projectPath 493,
      CallChdir projectPath,
      CallPlainInit projectPath False,
      CallCombinedOutput [''go'', ''mod'', ''init''],
      CallWriteFile ''main.go'' (mainContent projectName) 420]"

text \<open>The recorded calls other than the read of the global configuration.\<close>

definition side_effects :: "'w proc \<Rightarrow> (call \<times> err option) list" where
  "side_effects s = filter (\<lambda>ce. fst ce \<noteq> CallLoadConfig) (trace s)"

text \<open>A call performed directly on a world, and a list of calls performed in order.\<close>

fun perform :: "'w platform \<Rightarrow> call \<Rightarrow> 'w \<Rightarrow> err option \<times> 'w" where
  "perform P CallLoadConfig w =
     (case sys_LoadConfig P w of Inl e \<Rightarrow> (Some e, w) | Inr cfg \<Rightarrow> (None, w))"
| "perform P (CallMkdirAll path perm) w = sys_MkdirAll P path perm w"
| "perform P (CallChdir path) w = sys_Chdir P path w"
| "perform P (CallPlainInit path isBare) w = sys_PlainInit P path isBare w"
| "perform P (CallCombinedOutput args) w =
     (let ((out, e), w') = sys_CombinedOutput P args w in (e, w'))"
| "perform P (CallWriteFile name data perm) w = sys_WriteFile P name data perm w"

fun replay :: "'w platform \<Rightarrow> call list \<Rightarrow> 'w \<Rightarrow> 'w" where
  "replay P [] w = w"
| "replay P (c # cs) w = replay P cs (snd (perform P c w))"

text \<open>
  The user name stored in the global configuration; empty when the configuration
  cannot be loaded.
\<close>

definition global_name :: "'w platform \<Rightarrow> 'w \<Rightarrow> string" where
  "global_name P w = (case sys_LoadConfig P w of Inl e \<Rightarrow> '''' | Inr cfg \<Rightarrow> User_Name cfg)"

text \<open>
  A command line and a world give a valid configuration (provider, base path, user
  name, project name) when help is not asked for, there is exactly one positional
  argument, the base path (flag, else environment) is not empty, and the user name
  (flag if not empty, else global configuration) is not empty.
\<close>

definition valid_configuration ::
  "'w platform \<Rightarrow> cmdline \<Rightarrow> 'w \<Rightarrow> string \<Rightarrow> string \<Rightarrow> string \<Rightarrow> string \<Rightarrow> bool" where
  "valid_configuration P c w provider gopath username projectName \<longleftrightarrow>
     \<not> flag_Bool (flag_h c) False
   \<and> positional c = [projectName]
   \<and> flag_String (flag_provider c) ''github.com'' = provider
   \<and> flag_String (flag_gopath c) (Getenv_GOPATH P) = gopath
   \<and> gopath \<noteq> ''''
   \<and> (if flag_String (flag_username c) '''' = '''' then global_name P w
        else flag_String (flag_username c) '''') = username
   \<and> username \<noteq> ''''"

text \<open>What the read of the global configuration leaves in the trace of a run that goes
  on: one successful \<open>CallLoadConfig\<close> when \<open>-username\<close> is empty, nothing otherwise.\<close>

definition config_read :: "cmdline \<Rightarrow> (call \<times> err option) list" where
  "config_read c =
     (if flag_String (flag_username c) '''' = '''' then [(CallLoadConfig, None)] else [])"

text \<open>The project path a call is given, for the three calls that take it.\<close>

fun call_path :: "call \<Rightarrow> string option" where
  "call_path (CallMkdirAll path perm) = Some path"
| "call_path (CallChdir path) = Some path"
| "call_path (CallPlainInit path isBare) = Some path"
| "call_path c = None"

subsection \<open>A small platform for concrete runs\<close>

text \<open>
  A file system reduced to what the five calls touch: the directories, the working
  directory, the repositories (path and bareness) and the files (directory, name,
  contents). \<open>test_platform env cfg fails out\<close> has \<open>env\<close> as the value of GOPATH,
  \<open>cfg\<close> as the result of loading the global configuration, \<open>out\<close> as the output of
  the subprocess, and lets a call fail with the error \<open>fails\<close> gives for it; a failing
  call leaves the file system as it was. Paths are joined with slashes.
\<close>

record simfs =
  dirs :: "string list"
  cwd :: string
  repos :: "(string \<times> bool) list"
  files :: "(string \<times> string \<times> string) list"

definition empty_fs :: simfs where
  "empty_fs = \<lparr>dirs = [], cwd = ''/'', repos = [], files = []\<rparr>"

fun join_slash :: "string list \<Rightarrow> string" where
  "join_slash [] = ''''"
| "join_slash [x] = x"
| "join_slash (x # xs) = x @ ''/'' @ join_slash xs"

definition test_platform ::
  "string \<Rightarrow> err + config \<Rightarrow> (call \<Rightarrow> err option) \<Rightarrow> string \<Rightarrow> simfs platform" where
  "test_platform env cfg fails out =
     \<lparr>Args0 = ''go-project-init'',
      Getenv_GOPATH = env,
      PrintDefaults = '''',
      Join = join_slash,
      sys_LoadConfig = (\<lambda>w. cfg),
      sys_MkdirAll = (\<lambda>path perm w.
        case fails (CallMkdirAll path perm) of
          Some e \<Rightarrow> (Some e, w)
        | None \<Rightarrow> (None, w\<lparr>dirs := path # dirs w\<rparr>)),
      sys_Chdir = (\<lambda>path w.
        case fails (CallChdir path) of
          Some e \<Rightarrow> (Some e, w)
        | None \<Rightarrow> (None, w\<lparr>cwd := path\<rparr>)),
      sys_PlainInit = (\<lambda>path isBare w.
        case fails (CallPlainInit path isBare) of
          Some e \<Rightarrow> (Some e, w)
        | None \<Rightarrow> (None, w\<lparr>repos := (path, isBare) # repos w\<rparr>)),
      sys_CombinedOutput = (\<lambda>args w.
        case fails (CallCombinedOutput args) of
          Some e \<Rightarrow> ((out, Some e), w)
        | None \<Rightarrow> ((out, None), w\<lparr>files := (cwd w, ''go.mod'', '''') # files w\<rparr>)),
      sys_WriteFile = (\<lambda>name data perm w.
        case fails (CallWriteFile name data perm) of
          Some e \<Rightarrow> (Some e, w)
        | None \<Rightarrow> (None, w\<lparr>files := (cwd w, name, data) # files w\<rparr>))\<rparr>"

definition never :: "call \<Rightarrow> err option" where
  "never c = None"

text \<open>Concrete inputs: a command line with the project name only, and platforms on
  which GOPATH is \<open>/home/u/go\<close> and the global user name is \<open>alice\<close>.\<close>

abbreviation demo_cmdline :: cmdline where
  "demo_cmdline \<equiv>
     \<lparr>flag_provider = None, flag_gopath = None, flag_username = None, flag_h = None,
      positional = [''demo'']\<rparr>"

abbreviation demo_platform :: "simfs platform" where
  "demo_platform \<equiv> test_platform ''/home/u/go'' (Inr (Config ''alice'')) never ''''"

abbreviation go_mod_init :: call where
  "go_mod_init \<equiv> CallCombinedOutput [''go'', ''mod'', ''init'']"

text \<open>A platform on which \<open>go mod init\<close> fails with \<open>exit status 1\<close> after printing
  \<open>go: cannot determine module path\<close>.\<close>

abbreviation no_module_platform :: "simfs platform" where
  "no_module_platform \<equiv>
     test_platform ''/home/u/go'' (Inr (Config ''alice''))
       (\<lambda>c. if c = go_mod_init then Some ''exit status 1'' else None)
       ''go: cannot determine module path''"

text \<open>A platform on which the directory cannot be created.\<close>

abbreviation full_disk_platform :: "simfs platform" where
  "full_disk_platform \<equiv>
     test_platform ''/home/u/go'' (Inr (Config ''alice''))
       (\<lambda>c. case c of CallMkdirAll path perm \<Rightarrow> Some ''no space left on device'' | _ \<Rightarrow> None)
       ''''"

subsection \<open>A platform that resolves relative paths\<close>

text \<open>
  How the operating system reads a path: an absolute path as it is, a relative path
  against the working directory.
\<close>

definition resolve :: "string \<Rightarrow> string \<Rightarrow> string" where
  "resolve dir path =
     (case path of
        [] \<Rightarrow> dir
      | ch # rest \<Rightarrow>
          if ch = CHR ''/'' then path
          else if dir = ''/'' then ''/'' @ path
          else dir @ ''/'' @ path)"

text \<open>
  \<open>resolving_platform env cfg\<close> is a platform on which every call succeeds and every
  path is resolved at the time of the call: \<open>os.MkdirAll\<close>, \<open>os.Chdir\<close> and
  \<open>git.PlainInit\<close> act on \<open>resolve\<close> of the working directory and their argument, and
  the subprocess and \<open>os.WriteFile\<close> with a bare file name act in the working directory.
\<close>

definition resolving_platform :: "string \<Rightarrow> err + config \<Rightarrow> simfs platform" where
  "resolving_platform env cfg =
     \<lparr>Args0 = ''go-project-init'',
      Getenv_GOPATH = env,
      PrintDefaults = '''',
      Join = join_slash,
      sys_LoadConfig = (\<lambda>w. cfg),
      sys_MkdirAll = (\<lambda>path perm w. (None, w\<lparr>dirs := resolve (cwd w) path # dirs w\<rparr>)),
      sys_Chdir = (\<lambda>path w. (None, w\<lparr>cwd := resolve (cwd w) path\<rparr>)),
      sys_PlainInit = (\<lambda>path isBare w.
        (None, w\<lparr>repos := (resolve (cwd w) path, isBare) # repos w\<rparr>)),
      sys_CombinedOutput = (\<lambda>args w.
        (('''', None), w\<lparr>files := (cwd w, ''go.mod'', '''') # files w\<rparr>)),
      sys_WriteFile = (\<lambda>name data perm w.
        (None, w\<lparr>files := (cwd w, name, data) # files w\<rparr>))\<rparr>"

text \<open>
  The invocation \<open>go-project-init -gopath go demo\<close>, made in the directory \<open>/home/u\<close>
  with the global user name \<open>alice\<close>.
\<close>

abbreviation relative_cmdline :: cmdline where
  "relative_cmdline \<equiv>
     \<lparr>flag_provider = None, flag_gopath = Some ''go'', flag_username = None, flag_h = None,
      positional = [''demo'']\<rparr>"

abbreviation home_platform :: "simfs platform" where
  "home_platform \<equiv> resolving_platform ''/home/u/go'' (Inr (Config ''alice''))"

abbreviation home_fs :: simfs where
  "home_fs \<equiv> \<lparr>dirs = [], cwd = ''/home/u'', repos = [], files = []\<rparr>"

section \<open>Auxiliary facts\<close>

lemmas call_defs = os_MkdirAll_def os_Chdir_def git_PlainInit_def cmd_CombinedOutput_def
  os_WriteFile_def called_def Print_def Println_def

lemmas test_defs = test_platform_def never_def empty_fs_def flag_String_def flag_Bool_def
  global_name_def

lemma main_help:
  assumes "flag_Bool (flag_h c) False"
  shows "main P c w = (0, \<lparr>world = w, stdout = [], stderr = usage_text P, trace = []\<rparr>)"
  using assms by (simp add: main_def Usage_def start_def)

lemma main_usage_error:
  assumes "\<not> flag_Bool (flag_h c) False" and "length (positional c) \<noteq> 1"
  shows "main P c w =
    (1, \<lparr>world = w, stdout = ''Error: Project name is required as an argument.'' @ nl,
         stderr = usage_text P, trace = []\<rparr>)"
  using assms by (simp add: main_def Usage_def start_def Println_def Print_def)

lemma main_no_gopath:
  assumes "\<not> flag_Bool (flag_h c) False" and "length (positional c) = 1"
    and "flag_String (flag_gopath c) (Getenv_GOPATH P) = ''''"
  shows "main P c w =
    (1, \<lparr>world = w,
         stdout = ''Error: GOPATH is not set. Please set GOPATH environment variable or provide it using the -gopath flag.'' @ nl,
         stderr = [], trace = []\<rparr>)"
  using assms by (simp add: main_def start_def Println_def Print_def)

lemma main_no_username:
  assumes "\<not> flag_Bool (flag_h c) False" and "length (positional c) = 1"
    and "flag_String (flag_gopath c) (Getenv_GOPATH P) \<noteq> ''''"
    and "flag_String (flag_username c) '''' = ''''"
    and "global_name P w = ''''"
  shows "main P c w =
    (1, \<lparr>world = w,
         stdout = ''Error getting git username: ''
           @ (case sys_LoadConfig P w of
                Inl e \<Rightarrow> ''failed to load git config: '' @ e
              | Inr cfg \<Rightarrow> ''git user.name is not set in global config'') @ nl,
         stderr = [],
         trace = [(CallLoadConfig, case sys_LoadConfig P w of Inl e \<Rightarrow> Some e | Inr cfg \<Rightarrow> None)]\<rparr>)"
  using assms
  by (simp add: main_def start_def getGitUsername_def config_LoadConfig_def called_def
      Print_def global_name_def Let_def split: sum.splits)

lemma valid_configurationD:
  assumes "valid_configuration P c w provider gopath username projectName"
  shows "\<not> flag_Bool (flag_h c) False"
    and "positional c = [projectName]"
    and "flag_String (flag_provider c) ''github.com'' = provider"
    and "flag_String (flag_gopath c) (Getenv_GOPATH P) = gopath"
    and "gopath \<noteq> ''''"
    and "username \<noteq> ''''"
    and "(if flag_String (flag_username c) '''' = '''' then getGitUsername P (start w)
          else (Inr (flag_String (flag_username c) ''''), start w))
       = (Inr username, \<lparr>world = w, stdout = [], stderr = [], trace = config_read c\<rparr>)"
  using assms
  by (auto simp: valid_configuration_def getGitUsername_def config_LoadConfig_def called_def
      start_def global_name_def config_read_def split: sum.splits)

text \<open>The run on a valid configuration, by the results of the library calls.\<close>

lemma main_valid:
  assumes "valid_configuration P c w provider gopath username projectName"
    and "path = Join P [gopath, ''src'', provider, username, projectName]"
  shows "main P c w =
    (case sys_MkdirAll P path 493 w of
       (Some e, w1) \<Rightarrow>
         (1, \<lparr>world = w1, stdout = ''Error creating project directory: '' @ e @ nl, stderr = [],
              trace = config_read c @ [(CallMkdirAll path 493, Some e)]\<rparr>)
     | (None, w1) \<Rightarrow>
    (case sys_Chdir P path w1 of
       (Some e, w2) \<Rightarrow>
         (1, \<lparr>world = w2, stdout = ''Error changing to project directory: '' @ e @ nl, stderr = [],
              trace = config_read c @ [(CallMkdirAll path 493, None), (CallChdir path, Some e)]\<rparr>)
     | (None, w2) \<Rightarrow>
    (case sys_PlainInit P path False w2 of
       (Some e, w3) \<Rightarrow>
         (1, \<lparr>world = w3, stdout = ''Error initializing Git repository: '' @ e @ nl, stderr = [],
              trace = config_read c @ [(CallMkdirAll path 493, None), (CallChdir path, None),
                (CallPlainInit path False, Some e)]\<rparr>)
     | (None, w3) \<Rightarrow>
    (case sys_CombinedOutput P [''go'', ''mod'', ''init''] w3 of
       ((output, Some e), w4) \<Rightarrow>
         (1, \<lparr>world = w4, stdout = ''Error initializing Go module: '' @ e @ nl @ output @ nl,
              stderr = [],
              trace = config_read c @ [(CallMkdirAll path 493, None), (CallChdir path, None),
                (CallPlainInit path False, None), (go_mod_init, Some e)]\<rparr>)
     | ((output, None), w4) \<Rightarrow>
    (case sys_WriteFile P ''main.go'' (mainContent projectName) 420 w4 of
       (Some e, w5) \<Rightarrow>
         (1, \<lparr>world = w5, stdout = ''Error creating main.go file: '' @ e @ nl, stderr = [],
              trace = config_read c @ [(CallMkdirAll path 493, None), (CallChdir path, None),
                (CallPlainInit path False, None), (go_mod_init, None),
                (CallWriteFile ''main.go'' (mainContent projectName) 420, Some e)]\<rparr>)
     | (None, w5) \<Rightarrow>
         (0, \<lparr>world = w5,
              stdout = ''Successfully created and set up Go project at '' @ path @ nl
                     @ ''Created: Git repository, Go module, and main.go file'' @ nl,
              stderr = [],
              trace = config_read c @ [(CallMkdirAll path 493, None), (CallChdir path, None),
                (CallPlainInit path False, None), (go_mod_init, None),
                (CallWriteFile ''main.go'' (mainContent projectName) 420, None)]\<rparr>))))))"
  using assms(2) valid_configurationD[OF assms(1)]
  by (simp add: main_def Let_def call_defs split: prod.splits option.splits)

lemma side_effects_config_read:
  "side_effects \<lparr>world = w, stdout = out, stderr = er, trace = config_read c @ xs\<rparr>
     = filter (\<lambda>ce. fst ce \<noteq> CallLoadConfig) xs"
  by (simp add: side_effects_def config_read_def)

lemma paths_config_read:
  "List.map_filter call_path (map fst (config_read c) @ ys) = List.map_filter call_path ys"
  by (simp add: config_read_def List.map_filter_simps)

lemma demo_valid:
  "valid_configuration (test_platform ''/home/u/go'' (Inr (Config ''alice'')) fails out)
     demo_cmdline empty_fs ''github.com'' ''/home/u/go'' ''alice'' ''demo''"
  by (simp add: valid_configuration_def test_defs)

lemma relative_valid:
  "valid_configuration home_platform relative_cmdline home_fs
     ''github.com'' ''go'' ''alice'' ''demo''"
  by (simp add: valid_configuration_def resolving_platform_def flag_String_def flag_Bool_def
      global_name_def)

lemma main_valid_first:
  assumes "valid_configuration P c w provider gopath username projectName"
  shows "\<exists>r rest. side_effects (snd (main P c w)) =
            (CallMkdirAll (Join P [gopath, ''src'', provider, username, projectName]) 493, r) # rest
          \<and> trace (snd (main P c w)) = config_read c @ side_effects (snd (main P c w))"
  by (simp add: main_valid[OF assms refl] side_effects_config_read
      split: prod.splits option.splits)

lemma main_valid_success:
  assumes v: "valid_configuration P c w provider gopath username projectName"
    and p: "path = Join P [gopath, ''src'', provider, username, projectName]"
    and ok: "fst (main P c w) = 0"
  shows "\<exists>w1 w2 w3 out w4 w5.
           sys_MkdirAll P path 493 w = (None, w1)
         \<and> sys_Chdir P path w1 = (None, w2)
         \<and> sys_PlainInit P path False w2 = (None, w3)
         \<and> sys_CombinedOutput P [''go'', ''mod'', ''init''] w3 = ((out, None), w4)
         \<and> sys_WriteFile P ''main.go'' (mainContent projectName) 420 w4 = (None, w5)"
proof -
  note mv = main_valid[OF v p]
  obtain e1 w1 where m1: "sys_MkdirAll P path 493 w = (e1, w1)"
    by (cases "sys_MkdirAll P path 493 w")
  have e1: "e1 = None"
    using ok m1 by (cases e1) (simp_all add: mv)
  obtain e2 w2 where m2: "sys_Chdir P path w1 = (e2, w2)"
    by (cases "sys_Chdir P path w1")
  have e2: "e2 = None"
    using ok m1 e1 m2 by (cases e2) (simp_all add: mv)
  obtain e3 w3 where m3: "sys_PlainInit P path False w2 = (e3, w3)"
    by (cases "sys_PlainInit P path False w2")
  have e3: "e3 = None"
    using ok m1 e1 m2 e2 m3 by (cases e3) (simp_all add: mv)
  obtain out e4 w4 where m4: "sys_CombinedOutput P [''go'', ''mod'', ''init''] w3 = ((out, e4), w4)"
    by (cases "sys_CombinedOutput P [''go'', ''mod'', ''init''] w3") auto
  have e4: "e4 = None"
    using ok m1 e1 m2 e2 m3 e3 m4 by (cases e4) (simp_all add: mv)
  obtain e5 w5 where m5: "sys_WriteFile P ''main.go'' (mainContent projectName) 420 w4 = (e5, w5)"
    by (cases "sys_WriteFile P ''main.go'' (mainContent projectName) 420 w4")
  have e5: "e5 = None"
    using ok m1 e1 m2 e2 m3 e3 m4 e4 m5 by (cases e5) (simp_all add: mv)
  show ?thesis
    using m1 e1 m2 e2 m3 e3 m4 e4 m5 e5 by blast
qed

text \<open>A run without a valid configuration makes no call that changes the world.\<close>

lemma no_side_effects_unless_valid:
  assumes none: "\<And>provider gopath username projectName.
                   \<not> valid_configuration P c w provider gopath username projectName"
  shows "side_effects (snd (main P c w)) = []"
proof (cases "flag_Bool (flag_h c) False")
  case True
  then show ?thesis by (simp add: main_help side_effects_def)
next
  case nohelp: False
  show ?thesis
  proof (cases "length (positional c) = 1")
    case False
    with nohelp show ?thesis by (simp add: main_usage_error side_effects_def)
  next
    case one: True
    then obtain projectName where args: "positional c = [projectName]"
      by (cases "positional c") simp_all
    show ?thesis
    proof (cases "flag_String (flag_gopath c) (Getenv_GOPATH P) = ''''")
      case True
      with nohelp one show ?thesis by (simp add: main_no_gopath side_effects_def)
    next
      case gopath: False
      let ?u = "if flag_String (flag_username c) '''' = '''' then global_name P w
                else flag_String (flag_username c) ''''"
      have "?u = ''''"
      proof (rule ccontr)
        assume "?u \<noteq> ''''"
        with nohelp args gopath
        have "valid_configuration P c w (flag_String (flag_provider c) ''github.com'')
                (flag_String (flag_gopath c) (Getenv_GOPATH P)) ?u projectName"
          by (simp add: valid_configuration_def)
        with none show False by blast
      qed
      then have f: "flag_String (flag_username c) '''' = ''''" and n: "global_name P w = ''''"
        by (simp_all split: if_splits)
      show ?thesis
        by (simp add: main_no_username[OF nohelp one gopath f n] side_effects_def)
    qed
  qed
qed

section \<open>The properties\<close>

subsection \<open>C1: the project path\<close>

text \<open>
  C1. For every valid configuration (provider, base path, user name, project name), the
  project path is the platform's path join of the base path, \<open>src\<close>, the provider, the
  user name and the project name, in that order: every call of the run that is given the
  project path (directory creation, change of working directory, repository
  initialisation) is given exactly this join, directory creation is at least attempted,
  and a successful run reports this path.
\<close>

theorem project_path_is_join:
  assumes "valid_configuration P c w provider gopath username projectName"
  shows "set (List.map_filter call_path (map fst (trace (snd (main P c w)))))
           = {Join P [gopath, ''src'', provider, username, projectName]}
       \<and> (fst (main P c w) = 0 \<longrightarrow>
            stdout (snd (main P c w)) =
              ''Successfully created and set up Go project at ''
              @ Join P [gopath, ''src'', provider, username, projectName] @ nl
              @ ''Created: Git repository, Go module, and main.go file'' @ nl)"
  by (simp add: main_valid[OF assms refl] paths_config_read List.map_filter_simps
      split: prod.splits option.splits)

text \<open>C1 on the demo platform: the path is \<open>/home/u/go/src/github.com/alice/demo\<close>.\<close>

theorem project_path_is_join_witness:
  "valid_configuration demo_platform demo_cmdline empty_fs
     ''github.com'' ''/home/u/go'' ''alice'' ''demo''
   \<and> set (List.map_filter call_path (map fst (trace (snd (main demo_platform demo_cmdline empty_fs)))))
       = {''/home/u/go/src/github.com/alice/demo''}
   \<and> fst (main demo_platform demo_cmdline empty_fs) = 0
   \<and> stdout (snd (main demo_platform demo_cmdline empty_fs)) =
       ''Successfully created and set up Go project at /home/u/go/src/github.com/alice/demo'' @ nl
       @ ''Created: Git repository, Go module, and main.go file'' @ nl"
proof -
  have ok: "fst (main demo_platform demo_cmdline empty_fs) = 0"
    by (simp add: main_valid[OF demo_valid refl]) (simp add: test_defs)
  show ?thesis
    using project_path_is_join[OF demo_valid, of never "''''"] demo_valid[of never "''''"] ok
    by (simp add: test_platform_def)
qed

subsection \<open>C2: failure of the module initialisation\<close>

text \<open>
  C2. When the directory has been created, the working directory changed and the
  repository initialised, and \<open>go mod init\<close> then returns an error \<open>e\<close> with combined
  output \<open>output\<close>, the program exits with status 1 and prints the error followed by the
  output, unchanged. Nothing is undone: after the failing subprocess no further call is
  made, so the world at exit is the world the subprocess left, in which the directory
  and the repository of the earlier steps were created.
\<close>

theorem module_init_failure_no_rollback:
  assumes "valid_configuration P c w provider gopath username projectName"
    and "path = Join P [gopath, ''src'', provider, username, projectName]"
    and "sys_MkdirAll P path 493 w = (None, w1)"
    and "sys_Chdir P path w1 = (None, w2)"
    and "sys_PlainInit P path False w2 = (None, w3)"
    and "sys_CombinedOutput P [''go'', ''mod'', ''init''] w3 = ((output, Some e), w4)"
  shows "fst (main P c w) = 1
       \<and> stdout (snd (main P c w)) = ''Error initializing Go module: '' @ e @ nl @ output @ nl
       \<and> side_effects (snd (main P c w)) =
           [(CallMkdirAll path 493, None), (CallChdir path, None),
            (CallPlainInit path False, None), (go_mod_init, Some e)]
       \<and> world (snd (main P c w)) = w4"
  using assms(3-) by (simp add: main_valid[OF assms(1,2)] side_effects_config_read)

text \<open>C2 on a platform where \<open>go mod init\<close> fails: the directory and the repository are
  there at exit, and no file has been written.\<close>

theorem module_init_failure_no_rollback_witness:
  "valid_configuration no_module_platform demo_cmdline empty_fs
     ''github.com'' ''/home/u/go'' ''alice'' ''demo''
   \<and> fst (main no_module_platform demo_cmdline empty_fs) = 1
   \<and> stdout (snd (main no_module_platform demo_cmdline empty_fs)) =
       ''Error initializing Go module: exit status 1'' @ nl
       @ ''go: cannot determine module path'' @ nl
   \<and> world (snd (main no_module_platform demo_cmdline empty_fs)) =
       \<lparr>dirs = [''/home/u/go/src/github.com/alice/demo''],
        cwd = ''/home/u/go/src/github.com/alice/demo'',
        repos = [(''/home/u/go/src/github.com/alice/demo'', False)],
        files = []\<rparr>"
  using module_init_failure_no_rollback
    [OF demo_valid, of "''/home/u/go/src/github.com/alice/demo''"
      "\<lambda>c. if c = go_mod_init then Some ''exit status 1'' else None"
      "''go: cannot determine module path''"
      "\<lparr>dirs = [''/home/u/go/src/github.com/alice/demo''], cwd = ''/'', repos = [], files = []\<rparr>"
      "\<lparr>dirs = [''/home/u/go/src/github.com/alice/demo''],
        cwd = ''/home/u/go/src/github.com/alice/demo'', repos = [], files = []\<rparr>"
      "\<lparr>dirs = [''/home/u/go/src/github.com/alice/demo''],
        cwd = ''/home/u/go/src/github.com/alice/demo'',
        repos = [(''/home/u/go/src/github.com/alice/demo'', False)], files = []\<rparr>"
      "''go: cannot determine module path''" "''exit status 1''"
      "\<lparr>dirs = [''/home/u/go/src/github.com/alice/demo''],
        cwd = ''/home/u/go/src/github.com/alice/demo'',
        repos = [(''/home/u/go/src/github.com/alice/demo'', False)], files = []\<rparr>"]
    demo_valid[of "\<lambda>c. if c = go_mod_init then Some ''exit status 1'' else None"
      "''go: cannot determine module path''"]
  by (simp add: test_platform_def empty_fs_def)

subsection \<open>C3: empty base path\<close>

text \<open>
  C3, amended. If the base path is empty (neither \<open>-gopath\<close> nor the environment gave a
  value) and help is not asked for, the program exits with status 1 having made no call
  at all: the world at exit is the world at entry. This holds for any number of
  positional arguments.
\<close>

theorem empty_gopath_exits_untouched:
  assumes "flag_String (flag_gopath c) (Getenv_GOPATH P) = ''''"
    and "\<not> flag_Bool (flag_h c) False"
  shows "fst (main P c w) = 1
       \<and> trace (snd (main P c w)) = []
       \<and> world (snd (main P c w)) = w"
proof (cases "length (positional c) = 1")
  case True
  with assms show ?thesis by (simp add: main_no_gopath)
next
  case False
  with assms show ?thesis by (simp add: main_usage_error)
qed

text \<open>C3, amended, on a platform without GOPATH.\<close>

theorem empty_gopath_exits_untouched_witness:
  "flag_String (flag_gopath demo_cmdline)
     (Getenv_GOPATH (test_platform '''' (Inr (Config ''alice'')) never '''')) = ''''
   \<and> \<not> flag_Bool (flag_h demo_cmdline) False
   \<and> fst (main (test_platform '''' (Inr (Config ''alice'')) never '''') demo_cmdline empty_fs) = 1
   \<and> world (snd (main (test_platform '''' (Inr (Config ''alice'')) never '''') demo_cmdline empty_fs))
       = empty_fs"
  using empty_gopath_exits_untouched
    [of demo_cmdline "test_platform '''' (Inr (Config ''alice'')) never ''''" empty_fs]
  by (simp add: test_defs)

text \<open>
  C3 as stated does not hold: with \<open>-h\<close>, an empty base path does not lead to exit
  status 1. The help flag is tested first (lines 36 to 39) and the program exits with 0.
\<close>

theorem empty_gopath_with_help_counterexample:
  "flag_String (flag_gopath (demo_cmdline\<lparr>flag_h := Some True\<rparr>))
     (Getenv_GOPATH (test_platform '''' (Inr (Config ''alice'')) never '''')) = ''''
   \<and> fst (main (test_platform '''' (Inr (Config ''alice'')) never '''')
            (demo_cmdline\<lparr>flag_h := Some True\<rparr>) empty_fs) = 0"
  by (simp add: main_help test_defs)

subsection \<open>C4: number of positional arguments\<close>

text \<open>
  C4, amended. For every invocation without help and with zero or with two or more
  positional arguments, the program prints the error line on standard output and the
  usage message on standard error, and exits with status 1, having made no call.
\<close>

theorem usage_error_without_help:
  assumes "\<not> flag_Bool (flag_h c) False"
    and "length (positional c) = 0 \<or> 2 \<le> length (positional c)"
  shows "main P c w =
    (1, \<lparr>world = w, stdout = ''Error: Project name is required as an argument.'' @ nl,
         stderr = usage_text P, trace = []\<rparr>)"
  using assms by (intro main_usage_error) auto

text \<open>C4, amended, with two positional arguments.\<close>

theorem usage_error_without_help_witness:
  "\<not> flag_Bool (flag_h (demo_cmdline\<lparr>positional := [''a'', ''b'']\<rparr>)) False
   \<and> 2 \<le> length (positional (demo_cmdline\<lparr>positional := [''a'', ''b'']\<rparr>))
   \<and> fst (main demo_platform (demo_cmdline\<lparr>positional := [''a'', ''b'']\<rparr>) empty_fs) = 1
   \<and> stderr (snd (main demo_platform (demo_cmdline\<lparr>positional := [''a'', ''b'']\<rparr>) empty_fs))
       = usage_text demo_platform"
  using usage_error_without_help
    [of "demo_cmdline\<lparr>positional := [''a'', ''b'']\<rparr>" demo_platform empty_fs]
  by (simp add: flag_Bool_def)

text \<open>
  C4 as stated does not hold: with \<open>-h\<close> and no positional argument the exit status
  is 0, not 1.
\<close>

theorem usage_error_ignores_help_counterexample:
  "length (positional (demo_cmdline\<lparr>flag_h := Some True, positional := []\<rparr>)) = 0
   \<and> fst (main demo_platform (demo_cmdline\<lparr>flag_h := Some True, positional := []\<rparr>) empty_fs) = 0"
  by (simp add: main_help flag_Bool_def)

subsection \<open>C5: help\<close>

text \<open>
  C5. For every invocation with \<open>-h\<close>, the program writes the usage message to standard
  error, nothing to standard output, and exits with status 0; it makes no call (no read
  of the configuration, no file system operation, no subprocess), and the world at exit
  is the world at entry.
\<close>

theorem help_exits_zero_untouched:
  assumes "flag_h c = Some True"
  shows "main P c w = (0, \<lparr>world = w, stdout = [], stderr = usage_text P, trace = []\<rparr>)"
  using assms by (simp add: main_help flag_Bool_def)

text \<open>C5 on the demo platform.\<close>

theorem help_exits_zero_untouched_witness:
  "flag_h (demo_cmdline\<lparr>flag_h := Some True\<rparr>) = Some True
   \<and> fst (main demo_platform (demo_cmdline\<lparr>flag_h := Some True\<rparr>) empty_fs) = 0
   \<and> world (snd (main demo_platform (demo_cmdline\<lparr>flag_h := Some True\<rparr>) empty_fs)) = empty_fs
   \<and> trace (snd (main demo_platform (demo_cmdline\<lparr>flag_h := Some True\<rparr>) empty_fs)) = []"
  using help_exits_zero_untouched
    [of "demo_cmdline\<lparr>flag_h := Some True\<rparr>" demo_platform empty_fs]
  by simp

subsection \<open>C6: the user name from the global configuration\<close>

text \<open>
  C6, amended. On a run that reaches the resolution of the user name (no help, exactly
  one positional argument, a base path that is not empty) without \<open>-username\<close>, the
  global configuration is read. The run ends there, with exit status 1 and before any
  call that changes the world, exactly when the configuration cannot be loaded or holds
  no user name. Otherwise the user name is the one stored in the configuration: the
  directory created is the join with that name.
\<close>

theorem username_from_global_config:
  assumes "\<not> flag_Bool (flag_h c) False"
    and "positional c = [projectName]"
    and "flag_String (flag_gopath c) (Getenv_GOPATH P) \<noteq> ''''"
    and "flag_username c = None"
  shows "(\<exists>r rest. trace (snd (main P c w)) = (CallLoadConfig, r) # rest)
       \<and> ((fst (main P c w) = 1 \<and> side_effects (snd (main P c w)) = []) \<longleftrightarrow>
            (case sys_LoadConfig P w of Inl e \<Rightarrow> True | Inr cfg \<Rightarrow> User_Name cfg = ''''))
       \<and> (\<forall>cfg. sys_LoadConfig P w = Inr cfg \<and> User_Name cfg \<noteq> '''' \<longrightarrow>
            (\<exists>r rest. side_effects (snd (main P c w)) =
               (CallMkdirAll
                  (Join P [flag_String (flag_gopath c) (Getenv_GOPATH P), ''src'',
                           flag_String (flag_provider c) ''github.com'', User_Name cfg,
                           projectName]) 493, r) # rest))"
proof (cases "global_name P w = ''''")
  case True
  have u: "flag_String (flag_username c) '''' = ''''"
    using assms(4) by (simp add: flag_String_def)
  have l: "length (positional c) = 1"
    using assms(2) by simp
  have bad: "(case sys_LoadConfig P w of Inl e \<Rightarrow> True | Inr cfg \<Rightarrow> User_Name cfg = '''')"
    using True by (simp add: global_name_def split: sum.splits)
  have none: "\<And>cfg. sys_LoadConfig P w = Inr cfg \<Longrightarrow> User_Name cfg = ''''"
    using True by (simp add: global_name_def)
  show ?thesis
    using bad none
    by (simp add: main_no_username[OF assms(1) l assms(3) u True] side_effects_def)
next
  case False
  have u: "flag_String (flag_username c) '''' = ''''"
    using assms(4) by (simp add: flag_String_def)
  have v: "valid_configuration P c w (flag_String (flag_provider c) ''github.com'')
             (flag_String (flag_gopath c) (Getenv_GOPATH P)) (global_name P w) projectName"
    using assms u False by (simp add: valid_configuration_def)
  have good: "\<not> (case sys_LoadConfig P w of Inl e \<Rightarrow> True | Inr cfg \<Rightarrow> User_Name cfg = '''')"
    using False by (simp add: global_name_def split: sum.splits)
  have name: "\<And>cfg. sys_LoadConfig P w = Inr cfg \<Longrightarrow> User_Name cfg = global_name P w"
    by (simp add: global_name_def)
  have cr: "config_read c = [(CallLoadConfig, None)]"
    using u by (simp add: config_read_def)
  from main_valid_first[OF v] obtain r rest where
    eff: "side_effects (snd (main P c w)) =
            (CallMkdirAll (Join P [flag_String (flag_gopath c) (Getenv_GOPATH P), ''src'',
               flag_String (flag_provider c) ''github.com'', global_name P w, projectName]) 493, r)
            # rest"
    and tr: "trace (snd (main P c w)) = config_read c @ side_effects (snd (main P c w))"
    by blast
  have first: "\<exists>r rest. trace (snd (main P c w)) = (CallLoadConfig, r) # rest"
    using tr cr by simp
  have third: "\<forall>cfg. sys_LoadConfig P w = Inr cfg \<and> User_Name cfg \<noteq> '''' \<longrightarrow>
            (\<exists>r rest. side_effects (snd (main P c w)) =
               (CallMkdirAll
                  (Join P [flag_String (flag_gopath c) (Getenv_GOPATH P), ''src'',
                           flag_String (flag_provider c) ''github.com'', User_Name cfg,
                           projectName]) 493, r) # rest)"
    using eff name by simp
  show ?thesis
    using first third good eff by simp
qed

text \<open>C6, amended, on the demo platform: the stored name \<open>alice\<close> is used.\<close>

theorem username_from_global_config_witness:
  "\<not> flag_Bool (flag_h demo_cmdline) False
   \<and> positional demo_cmdline = [''demo'']
   \<and> flag_String (flag_gopath demo_cmdline) (Getenv_GOPATH demo_platform) \<noteq> ''''
   \<and> flag_username demo_cmdline = None
   \<and> sys_LoadConfig demo_platform empty_fs = Inr (Config ''alice'')
   \<and> User_Name (Config ''alice'') \<noteq> ''''
   \<and> (\<exists>r rest. side_effects (snd (main demo_platform demo_cmdline empty_fs)) =
         (CallMkdirAll ''/home/u/go/src/github.com/alice/demo'' 493, r) # rest)"
proof -
  have h: "\<not> flag_Bool (flag_h demo_cmdline) False"
    "positional demo_cmdline = [''demo'']"
    "flag_String (flag_gopath demo_cmdline) (Getenv_GOPATH demo_platform) \<noteq> ''''"
    "flag_username demo_cmdline = None"
    by (simp_all add: test_defs)
  have l: "sys_LoadConfig demo_platform empty_fs = Inr (Config ''alice'')"
    by (simp add: test_platform_def)
  show ?thesis
    using username_from_global_config[OF h, of empty_fs] l
    by (simp add: test_defs)
qed

text \<open>
  C6 as stated does not hold, in both directions of "exactly when". With \<open>-h\<close> and a
  configuration that cannot be loaded, the program exits with status 0. With a
  configuration that holds the name \<open>alice\<close> and a directory creation that fails, the
  program exits with status 1.
\<close>

theorem username_exactly_when_counterexample:
  "flag_username (demo_cmdline\<lparr>flag_h := Some True\<rparr>) = None
   \<and> sys_LoadConfig (test_platform ''/home/u/go'' (Inl ''no config'') never '''') empty_fs
       = Inl ''no config''
   \<and> fst (main (test_platform ''/home/u/go'' (Inl ''no config'') never '''')
            (demo_cmdline\<lparr>flag_h := Some True\<rparr>) empty_fs) = 0
   \<and> flag_username demo_cmdline = None
   \<and> sys_LoadConfig full_disk_platform empty_fs = Inr (Config ''alice'')
   \<and> fst (main full_disk_platform demo_cmdline empty_fs) = 1"
proof -
  have a: "fst (main (test_platform ''/home/u/go'' (Inl ''no config'') never '''')
            (demo_cmdline\<lparr>flag_h := Some True\<rparr>) empty_fs) = 0"
    by (simp add: main_help flag_Bool_def)
  have b: "fst (main full_disk_platform demo_cmdline empty_fs) = 1"
    by (simp add: main_valid[OF demo_valid refl]) (simp add: test_platform_def)
  show ?thesis
    by (intro conjI a b) (simp_all add: test_platform_def)
qed

subsection \<open>C7: a successful run for \<open>demo\<close>\<close>

text \<open>
  On every platform, a run that ends with exit status 0 and is not a help run made
  exactly the five calls for the project name, all without error: for the project name
  \<open>demo\<close>, the repository was initialised with the project path as argument and not
  bare, and \<open>main.go\<close> was written with the template whose greeting line is
  \<open>fmt.Println("Hello from demo!")\<close>. The world at exit is the result of these five
  calls.
\<close>

lemma demo_run_calls:
  assumes "fst (main P c w) = 0"
    and "\<not> flag_Bool (flag_h c) False"
    and "positional c = [''demo'']"
  shows "\<exists>provider gopath username.
           valid_configuration P c w provider gopath username ''demo''
         \<and> side_effects (snd (main P c w)) =
             [(CallMkdirAll (Join P [gopath, ''src'', provider, username, ''demo'']) 493, None),
              (CallChdir (Join P [gopath, ''src'', provider, username, ''demo'']), None),
              (CallPlainInit (Join P [gopath, ''src'', provider, username, ''demo'']) False, None),
              (go_mod_init, None),
              (CallWriteFile ''main.go''
                 (''package main'' @ nl @ nl
                  @ ''import '' @ dq @ ''fmt'' @ dq @ nl @ nl
                  @ ''func main() {'' @ nl
                  @ tab @ ''fmt.Println('' @ dq @ ''Hello from demo!'' @ dq @ '')'' @ nl
                  @ ''}'' @ nl) 420, None)]
         \<and> world (snd (main P c w)) =
             replay P (steps (Join P [gopath, ''src'', provider, username, ''demo'']) ''demo'') w"
proof -
  let ?g = "flag_String (flag_gopath c) (Getenv_GOPATH P)"
  let ?u = "if flag_String (flag_username c) '''' = '''' then global_name P w
            else flag_String (flag_username c) ''''"
  let ?p = "flag_String (flag_provider c) ''github.com''"
  let ?path = "Join P [?g, ''src'', ?p, ?u, ''demo'']"
  have l: "length (positional c) = 1"
    using assms(3) by simp
  have g: "?g \<noteq> ''''"
  proof
    assume "?g = ''''"
    from main_no_gopath[OF assms(2) l this, of w] assms(1) show False by simp
  qed
  have u: "?u \<noteq> ''''"
  proof
    assume e: "?u = ''''"
    then have f: "flag_String (flag_username c) '''' = ''''"
      by (simp split: if_splits)
    with e have n: "global_name P w = ''''" by simp
    from main_no_username[OF assms(2) l g f n] assms(1) show False by simp
  qed
  have v: "valid_configuration P c w ?p ?g ?u ''demo''"
    using assms(2,3) g u by (simp add: valid_configuration_def)
  from main_valid_success[OF v refl assms(1)] obtain w1 w2 w3 out w4 w5 where
    r: "sys_MkdirAll P ?path 493 w = (None, w1)"
       "sys_Chdir P ?path w1 = (None, w2)"
       "sys_PlainInit P ?path False w2 = (None, w3)"
       "sys_CombinedOutput P [''go'', ''mod'', ''init''] w3 = ((out, None), w4)"
       "sys_WriteFile P ''main.go'' (mainContent ''demo'') 420 w4 = (None, w5)"
    by blast
  have eff: "side_effects (snd (main P c w)) =
             [(CallMkdirAll ?path 493, None), (CallChdir ?path, None),
              (CallPlainInit ?path False, None), (go_mod_init, None),
              (CallWriteFile ''main.go'' (mainContent ''demo'') 420, None)]"
    using r by (simp add: main_valid[OF v refl] side_effects_config_read)
  have wld: "world (snd (main P c w)) = replay P (steps ?path ''demo'') w"
    using r by (simp add: main_valid[OF v refl] steps_def)
  have content: "mainContent ''demo'' =
      ''package main'' @ nl @ nl
      @ ''import '' @ dq @ ''fmt'' @ dq @ nl @ nl
      @ ''func main() {'' @ nl
      @ tab @ ''fmt.Println('' @ dq @ ''Hello from demo!'' @ dq @ '')'' @ nl
      @ ''}'' @ nl"
    by (simp add: mainContent_def)
  show ?thesis
    using v eff[unfolded content] wld by blast
qed

text \<open>The same on the demo platform, where the base path is absolute.\<close>

lemma demo_run_calls_on_demo_platform:
  "fst (main demo_platform demo_cmdline empty_fs) = 0
   \<and> \<not> flag_Bool (flag_h demo_cmdline) False
   \<and> positional demo_cmdline = [''demo'']
   \<and> side_effects (snd (main demo_platform demo_cmdline empty_fs)) =
       [(CallMkdirAll ''/home/u/go/src/github.com/alice/demo'' 493, None),
        (CallChdir ''/home/u/go/src/github.com/alice/demo'', None),
        (CallPlainInit ''/home/u/go/src/github.com/alice/demo'' False, None),
        (go_mod_init, None),
        (CallWriteFile ''main.go''
           (''package main'' @ nl @ nl
            @ ''import '' @ dq @ ''fmt'' @ dq @ nl @ nl
            @ ''func main() {'' @ nl
            @ tab @ ''fmt.Println('' @ dq @ ''Hello from demo!'' @ dq @ '')'' @ nl
            @ ''}'' @ nl) 420, None)]"
proof -
  have ok: "fst (main demo_platform demo_cmdline empty_fs) = 0"
    by (simp add: main_valid[OF demo_valid refl]) (simp add: test_platform_def never_def)
  have h: "\<not> flag_Bool (flag_h demo_cmdline) False" "positional demo_cmdline = [''demo'']"
    by (simp_all add: flag_Bool_def)
  from demo_run_calls[OF ok h]
  obtain provider gopath username where
    v: "valid_configuration demo_platform demo_cmdline empty_fs provider gopath username ''demo''"
    and eff: "side_effects (snd (main demo_platform demo_cmdline empty_fs)) =
       [(CallMkdirAll (Join demo_platform [gopath, ''src'', provider, username, ''demo'']) 493, None),
        (CallChdir (Join demo_platform [gopath, ''src'', provider, username, ''demo'']), None),
        (CallPlainInit (Join demo_platform [gopath, ''src'', provider, username, ''demo'']) False, None),
        (go_mod_init, None),
        (CallWriteFile ''main.go''
           (''package main'' @ nl @ nl
            @ ''import '' @ dq @ ''fmt'' @ dq @ nl @ nl
            @ ''func main() {'' @ nl
            @ tab @ ''fmt.Println('' @ dq @ ''Hello from demo!'' @ dq @ '')'' @ nl
            @ ''}'' @ nl) 420, None)]"
    by blast
  from v have "provider = ''github.com''" "gopath = ''/home/u/go''" "username = ''alice''"
    by (auto simp: valid_configuration_def test_defs)
  then have j: "Join demo_platform [gopath, ''src'', provider, username, ''demo'']
      = ''/home/u/go/src/github.com/alice/demo''"
    by (simp add: test_platform_def)
  show ?thesis
    using ok h eff[unfolded j] by blast
qed

text \<open>
  C7. After a successful run with the project name \<open>demo\<close>, the file \<open>main.go\<close> holds
  the greeting for \<open>demo\<close> and a repository marker exists at the project root. The code
  does not achieve the second part when the base path is relative. It changes into the
  project directory (line 77) and then gives the same relative path to \<open>git.PlainInit\<close>
  (line 84), which is now read against the project directory. For
  \<open>go-project-init -gopath go demo\<close> made in \<open>/home/u\<close> the run succeeds with exit
  status 0, \<open>main.go\<close> and \<open>go.mod\<close> are in the project root
  \<open>/home/u/go/src/github.com/alice/demo\<close>, and the only repository is in
  \<open>/home/u/go/src/github.com/alice/demo/go/src/github.com/alice/demo\<close>: there is none
  at the project root.
\<close>

theorem relative_gopath_repository_misplaced:
  "fst (main home_platform relative_cmdline home_fs) = 0
   \<and> side_effects (snd (main home_platform relative_cmdline home_fs)) =
       [(CallMkdirAll ''go/src/github.com/alice/demo'' 493, None),
        (CallChdir ''go/src/github.com/alice/demo'', None),
        (CallPlainInit ''go/src/github.com/alice/demo'' False, None),
        (go_mod_init, None),
        (CallWriteFile ''main.go'' (mainContent ''demo'') 420, None)]
   \<and> world (snd (main home_platform relative_cmdline home_fs)) =
       \<lparr>dirs = [''/home/u/go/src/github.com/alice/demo''],
        cwd = ''/home/u/go/src/github.com/alice/demo'',
        repos = [(''/home/u/go/src/github.com/alice/demo/go/src/github.com/alice/demo'', False)],
        files = [(''/home/u/go/src/github.com/alice/demo'', ''main.go'', mainContent ''demo''),
                 (''/home/u/go/src/github.com/alice/demo'', ''go.mod'', '''')]\<rparr>
   \<and> (''/home/u/go/src/github.com/alice/demo'', False)
        \<notin> set (repos (world (snd (main home_platform relative_cmdline home_fs))))"
proof -
  have run: "main home_platform relative_cmdline home_fs =
    (0, \<lparr>world =
       \<lparr>dirs = [''/home/u/go/src/github.com/alice/demo''],
        cwd = ''/home/u/go/src/github.com/alice/demo'',
        repos = [(''/home/u/go/src/github.com/alice/demo/go/src/github.com/alice/demo'', False)],
        files = [(''/home/u/go/src/github.com/alice/demo'', ''main.go'', mainContent ''demo''),
                 (''/home/u/go/src/github.com/alice/demo'', ''go.mod'', '''')]\<rparr>,
       stdout = ''Successfully created and set up Go project at go/src/github.com/alice/demo'' @ nl
                @ ''Created: Git repository, Go module, and main.go file'' @ nl,
       stderr = [],
       trace = [(CallLoadConfig, None),
                (CallMkdirAll ''go/src/github.com/alice/demo'' 493, None),
                (CallChdir ''go/src/github.com/alice/demo'', None),
                (CallPlainInit ''go/src/github.com/alice/demo'' False, None),
                (go_mod_init, None),
                (CallWriteFile ''main.go'' (mainContent ''demo'') 420, None)]\<rparr>)"
    by (simp add: main_valid[OF relative_valid refl])
       (simp add: resolving_platform_def resolve_def config_read_def flag_String_def)
  show ?thesis
    by (simp add: run side_effects_def)
qed

subsection \<open>C8: order of the steps, and stop at the first failure\<close>

text \<open>
  C8. On a valid configuration the calls that change the world are an initial part of
  the fixed list: directory creation, change of working directory, repository
  initialisation, \<open>go mod init\<close>, write of \<open>main.go\<close>. The first is always made. Every
  call that is followed by another returned no error, so a step is made only if all
  earlier ones succeeded and nothing follows a failing step. The recorded result of
  each call is the result of performing it on the world the earlier calls left, the
  world at exit is the world these calls left, and the exit status is 0 exactly when
  all five were made and the last one succeeded. (A run without a valid configuration
  makes none of these calls: \<open>no_side_effects_unless_valid\<close>.)
\<close>

theorem steps_in_order_until_first_failure:
  assumes "valid_configuration P c w provider gopath username projectName"
  shows "side_effects (snd (main P c w)) \<noteq> []
       \<and> prefix (map fst (side_effects (snd (main P c w))))
                 (steps (Join P [gopath, ''src'', provider, username, projectName]) projectName)
       \<and> (\<forall>i. Suc i < length (side_effects (snd (main P c w)))
              \<longrightarrow> snd (side_effects (snd (main P c w)) ! i) = None)
       \<and> (\<forall>i < length (side_effects (snd (main P c w))).
              snd (side_effects (snd (main P c w)) ! i) =
                fst (perform P (fst (side_effects (snd (main P c w)) ! i))
                       (replay P (take i (map fst (side_effects (snd (main P c w))))) w)))
       \<and> world (snd (main P c w)) = replay P (map fst (side_effects (snd (main P c w)))) w
       \<and> (fst (main P c w) = 0 \<longleftrightarrow>
            length (side_effects (snd (main P c w))) = 5
            \<and> snd (last (side_effects (snd (main P c w)))) = None)"
  by (simp add: main_valid[OF assms refl] side_effects_config_read steps_def nth_Cons'
      All_less_Suc split: prod.splits option.splits)

text \<open>C8 on a platform where \<open>go mod init\<close> fails: four calls, the first three without
  error, and no write of \<open>main.go\<close>.\<close>

theorem steps_in_order_until_first_failure_witness:
  "valid_configuration no_module_platform demo_cmdline empty_fs
     ''github.com'' ''/home/u/go'' ''alice'' ''demo''
   \<and> Suc 2 < length (side_effects (snd (main no_module_platform demo_cmdline empty_fs)))
   \<and> snd (side_effects (snd (main no_module_platform demo_cmdline empty_fs)) ! 2) = None
   \<and> 3 < length (side_effects (snd (main no_module_platform demo_cmdline empty_fs)))
   \<and> snd (side_effects (snd (main no_module_platform demo_cmdline empty_fs)) ! 3) =
       fst (perform no_module_platform
              (fst (side_effects (snd (main no_module_platform demo_cmdline empty_fs)) ! 3))
              (replay no_module_platform
                 (take 3 (map fst (side_effects (snd (main no_module_platform demo_cmdline empty_fs)))))
                 empty_fs))
   \<and> prefix (map fst (side_effects (snd (main no_module_platform demo_cmdline empty_fs))))
        (steps ''/home/u/go/src/github.com/alice/demo'' ''demo'')
   \<and> fst (main no_module_platform demo_cmdline empty_fs) \<noteq> 0"
proof -
  have len: "length (side_effects (snd (main no_module_platform demo_cmdline empty_fs))) = 4"
    by (simp add: main_valid[OF demo_valid refl])
       (simp add: test_platform_def side_effects_config_read)
  have j: "Join no_module_platform [''/home/u/go'', ''src'', ''github.com'', ''alice'', ''demo'']
      = ''/home/u/go/src/github.com/alice/demo''"
    by (simp add: test_platform_def)
  note t = steps_in_order_until_first_failure[OF demo_valid,
      of "\<lambda>c. if c = go_mod_init then Some ''exit status 1'' else None"
         "''go: cannot determine module path''", unfolded j]
  from t have "Suc 2 < length (side_effects (snd (main no_module_platform demo_cmdline empty_fs)))
      \<longrightarrow> snd (side_effects (snd (main no_module_platform demo_cmdline empty_fs)) ! 2) = None"
    by blast
  with len have third: "snd (side_effects (snd (main no_module_platform demo_cmdline empty_fs)) ! 2) = None"
    by simp
  from t have "3 < length (side_effects (snd (main no_module_platform demo_cmdline empty_fs)))
      \<longrightarrow> snd (side_effects (snd (main no_module_platform demo_cmdline empty_fs)) ! 3) =
       fst (perform no_module_platform
              (fst (side_effects (snd (main no_module_platform demo_cmdline empty_fs)) ! 3))
              (replay no_module_platform
                 (take 3 (map fst (side_effects (snd (main no_module_platform demo_cmdline empty_fs)))))
                 empty_fs))"
    by blast
  with len have fourth: "snd (side_effects (snd (main no_module_platform demo_cmdline empty_fs)) ! 3) =
       fst (perform no_module_platform
              (fst (side_effects (snd (main no_module_platform demo_cmdline empty_fs)) ! 3))
              (replay no_module_platform
                 (take 3 (map fst (side_effects (snd (main no_module_platform demo_cmdline empty_fs)))))
                 empty_fs))"
    by simp
  from t len have code: "fst (main no_module_platform demo_cmdline empty_fs) \<noteq> 0"
    by simp
  from t have pre: "prefix (map fst (side_effects (snd (main no_module_platform demo_cmdline empty_fs))))
        (steps ''/home/u/go/src/github.com/alice/demo'' ''demo'')"
    by blast
  show ?thesis
    using demo_valid[of "\<lambda>c. if c = go_mod_init then Some ''exit status 1'' else None"
         "''go: cannot determine module path''"] len third fourth pre code
    by (intro conjI) simp_all
qed

subsection \<open>C9: help is tested before the positional arguments\<close>

text \<open>
  C9. With \<open>-h\<close> and any list of positional arguments, empty or not, the program writes
  the usage message to standard error, nothing to standard output (not the error line
  of the usage error), and exits with status 0; the same command line without \<open>-h\<close>
  exits with status 1 when the number of positional arguments is not one.
\<close>

theorem help_before_arguments:
  assumes "flag_h c = Some True"
  shows "fst (main P (c\<lparr>positional := args\<rparr>) w) = 0
       \<and> stdout (snd (main P (c\<lparr>positional := args\<rparr>) w)) = []
       \<and> stderr (snd (main P (c\<lparr>positional := args\<rparr>) w)) = usage_text P
       \<and> (length args \<noteq> 1 \<longrightarrow>
            fst (main P (c\<lparr>flag_h := None, positional := args\<rparr>) w) = 1)"
  using assms by (simp add: main_help main_usage_error flag_Bool_def)

text \<open>C9 with no positional argument.\<close>

theorem help_before_arguments_witness:
  "flag_h (demo_cmdline\<lparr>flag_h := Some True\<rparr>) = Some True
   \<and> length ([] :: string list) \<noteq> 1
   \<and> fst (main demo_platform (demo_cmdline\<lparr>flag_h := Some True, positional := []\<rparr>) empty_fs) = 0
   \<and> fst (main demo_platform (demo_cmdline\<lparr>flag_h := None, positional := []\<rparr>) empty_fs) = 1"
  using help_before_arguments
    [of "demo_cmdline\<lparr>flag_h := Some True\<rparr>" demo_platform "[]" empty_fs]
  by simp

subsection \<open>C10: flags given as the empty string\<close>

text \<open>
  C10, amended. Without help and with exactly one positional argument, \<open>-gopath ""\<close>
  leads to the error of the empty base path and exit status 1, with no call made,
  whatever the environment variable holds. And \<open>-username ""\<close> is the same run as no
  \<open>-username\<close> at all, for every command line, platform and world: the empty string is
  never used as the user name, the global configuration is consulted instead.
\<close>

theorem empty_flag_as_absent:
  "(\<not> flag_Bool (flag_h c) False \<and> length (positional c) = 1 \<and> flag_gopath c = Some '''' \<longrightarrow>
      main P c w =
        (1, \<lparr>world = w,
             stdout = ''Error: GOPATH is not set. Please set GOPATH environment variable or provide it using the -gopath flag.'' @ nl,
             stderr = [], trace = []\<rparr>))
   \<and> main P (c\<lparr>flag_username := Some ''''\<rparr>) w = main P (c\<lparr>flag_username := None\<rparr>) w"
proof (intro conjI impI)
  assume h: "\<not> flag_Bool (flag_h c) False \<and> length (positional c) = 1 \<and> flag_gopath c = Some ''''"
  then have "flag_String (flag_gopath c) (Getenv_GOPATH P) = ''''"
    by (simp add: flag_String_def)
  with h show "main P c w =
        (1, \<lparr>world = w,
             stdout = ''Error: GOPATH is not set. Please set GOPATH environment variable or provide it using the -gopath flag.'' @ nl,
             stderr = [], trace = []\<rparr>)"
    by (simp add: main_no_gopath)
next
  show "main P (c\<lparr>flag_username := Some ''''\<rparr>) w = main P (c\<lparr>flag_username := None\<rparr>) w"
    by (simp add: main_def flag_String_def Let_def)
qed

text \<open>C10, amended: \<open>-gopath ""\<close> with GOPATH set to \<open>/home/u/go\<close>.\<close>

theorem empty_flag_as_absent_witness:
  "\<not> flag_Bool (flag_h (demo_cmdline\<lparr>flag_gopath := Some ''''\<rparr>)) False
   \<and> length (positional (demo_cmdline\<lparr>flag_gopath := Some ''''\<rparr>)) = 1
   \<and> flag_gopath (demo_cmdline\<lparr>flag_gopath := Some ''''\<rparr>) = Some ''''
   \<and> Getenv_GOPATH demo_platform = ''/home/u/go''
   \<and> fst (main demo_platform (demo_cmdline\<lparr>flag_gopath := Some ''''\<rparr>) empty_fs) = 1"
  using empty_flag_as_absent
    [of "demo_cmdline\<lparr>flag_gopath := Some ''''\<rparr>" demo_platform empty_fs]
  by (simp add: test_defs)

text \<open>
  C10 as stated does not hold: \<open>-gopath ""\<close> does not always lead to the error of the
  empty base path. With \<open>-h\<close> the exit status is 0; without \<open>-h\<close> and without a
  positional argument the error printed is the usage error.
\<close>

theorem empty_gopath_flag_counterexample:
  "flag_gopath (demo_cmdline\<lparr>flag_gopath := Some '''', flag_h := Some True\<rparr>) = Some ''''
   \<and> Getenv_GOPATH demo_platform = ''/home/u/go''
   \<and> fst (main demo_platform
            (demo_cmdline\<lparr>flag_gopath := Some '''', flag_h := Some True\<rparr>) empty_fs) = 0
   \<and> flag_gopath (demo_cmdline\<lparr>flag_gopath := Some '''', positional := []\<rparr>) = Some ''''
   \<and> stdout (snd (main demo_platform
            (demo_cmdline\<lparr>flag_gopath := Some '''', positional := []\<rparr>) empty_fs))
       = ''Error: Project name is required as an argument.'' @ nl"
proof -
  have a: "fst (main demo_platform
            (demo_cmdline\<lparr>flag_gopath := Some '''', flag_h := Some True\<rparr>) empty_fs) = 0"
    by (simp add: main_help flag_Bool_def)
  have b: "stdout (snd (main demo_platform
            (demo_cmdline\<lparr>flag_gopath := Some '''', positional := []\<rparr>) empty_fs))
       = ''Error: Project name is required as an argument.'' @ nl"
    by (simp add: main_usage_error flag_Bool_def)
  show ?thesis
    by (intro conjI a b) (simp_all add: test_platform_def)
qed

end
